theory Spec2Isabelle
  imports Main
begin

section \<open>The world the handlers of bot.py run in\<close>

text \<open>
  bot.py holds three coroutine handlers (\<open>handle_media\<close>, \<open>button_cb\<close> and the
  helper \<open>run_ffmpeg\<close>) that act on a temporary directory, on the per-user dictionary
  \<open>context.user_data\<close> that python-telegram-bot hands to every handler of one user,
  and on the chat through the bot API. The embedding threads one record through the
  handlers:
  \<^item> \<open>fs\<close>: the set of paths that exist on disk;
  \<^item> \<open>user_data\<close>: the dictionary of the one user the events come from;
  \<^item> \<open>trace\<close>: every outward action that was attempted, oldest first.
  What the outside decides (which bot API call raises, which names the temp-file
  generator proposes, how the ffmpeg process ends) is read from an \<open>env\<close> record that
  is a parameter of every handler call.
\<close>

type_synonym path = string

text \<open>
  The texts the bot shows are Arabic sentences in the source. They are kept apart by
  one constructor each, in the order of their appearance in bot.py; the compression
  failure text is the format string of line 145 applied to \<open>str(exc)\<close>.
\<close>

datatype msg =
    MsgStart
  | MsgNoMedia
  | MsgChoose
  | MsgNoFile
  | MsgSendingOriginal
  | MsgSentOriginal
  | MsgCompressing
  | MsgCompressFailed string
  | MsgSentCompressed
  | MsgHelp

datatype event =
    Answer
  | ReplyText msg
  | ReplyKeyboard msg "string list"
  | EditMessageText msg
  | GetFile string
  | DownloadToDrive string path
  | SendDocument path string
  | SubprocessRun "string list"
  | Unlink path
  | LogInfoRunning "string list"
  | LogError string
  | LogException string

datatype exn =
    RuntimeError string
  | TypeError string
  | FileExistsError string
  | FileNotFoundError string
  | ExternalError string

fun str_exn :: "exn \<Rightarrow> string" where
  "str_exn (RuntimeError m) = m"
| "str_exn (TypeError m) = m"
| "str_exn (FileExistsError m) = m"
| "str_exn (FileNotFoundError m) = m"
| "str_exn (ExternalError m) = m"

record world =
  fs :: "path set"
  user_data :: "string \<rightharpoonup> string"
  trace :: "event list"

text \<open>
  \<open>fails ev = Some m\<close>: the outside call \<open>ev\<close> raises an exception whose \<open>str\<close> is
  \<open>m\<close>. \<open>tmp_candidates\<close>: the path stems (directory, prefix and random part) that
  \<open>tempfile\<close> proposes, in order. \<open>proc_returncode\<close> and \<open>proc_stderr\<close>: exit status
  and decoded error stream of the ffmpeg process.
\<close>

record env =
  fails :: "event \<Rightarrow> string option"
  tmp_candidates :: "string list"
  proc_returncode :: int
  proc_stderr :: string

section \<open>Control flow: state, exceptions, try/except, try/finally\<close>

type_synonym 'a io = "world \<Rightarrow> (exn + 'a) \<times> world"

definition io_return :: "'a \<Rightarrow> 'a io" where
  "io_return x = (\<lambda>s. (Inr x, s))"

definition io_raise :: "exn \<Rightarrow> 'a io" where
  "io_raise e = (\<lambda>s. (Inl e, s))"

definition io_bind :: "'a io \<Rightarrow> ('a \<Rightarrow> 'b io) \<Rightarrow> 'b io" where
  "io_bind m f = (\<lambda>s. case m s of (Inl e, s') \<Rightarrow> (Inl e, s') | (Inr x, s') \<Rightarrow> f x s')"

definition io_then :: "'a io \<Rightarrow> 'b io \<Rightarrow> 'b io" where
  "io_then m n = io_bind m (\<lambda>_. n)"

text \<open>\<open>try: m except Exception as exc: h exc\<close>\<close>

definition try_except :: "'a io \<Rightarrow> (exn \<Rightarrow> 'a io) \<Rightarrow> 'a io" where
  "try_except m h = (\<lambda>s. case m s of (Inl e, s') \<Rightarrow> h e s' | (Inr x, s') \<Rightarrow> (Inr x, s'))"

text \<open>\<open>try: m except Exception: pass\<close>\<close>

definition try_pass :: "unit io \<Rightarrow> unit io" where
  "try_pass m = try_except m (\<lambda>_. io_return ())"

text \<open>
  \<open>try: m finally: fin\<close>. The finally block runs whatever \<open>m\<close> did; afterwards the
  outcome of \<open>m\<close> (its value, its early return or its exception) stands, unless the
  finally block raised itself.
\<close>

definition try_finally :: "'a io \<Rightarrow> unit io \<Rightarrow> 'a io" where
  "try_finally m fin =
     (\<lambda>s. case m s of (r, s') \<Rightarrow>
            (case fin s' of (Inl e, s'') \<Rightarrow> (Inl e, s'') | (Inr _, s'') \<Rightarrow> (r, s'')))"

section \<open>The outside: bot API, logging, file system, tempfile, pathlib\<close>

text \<open>An awaited bot API call: the attempt is recorded, then it raises if the outside says so.\<close>

definition gateway :: "env \<Rightarrow> event \<Rightarrow> unit io" where
  "gateway e ev =
     (\<lambda>s. case fails e ev of
             None \<Rightarrow> (Inr (), s\<lparr>trace := trace s @ [ev]\<rparr>)
           | Some m \<Rightarrow> (Inl (ExternalError m), s\<lparr>trace := trace s @ [ev]\<rparr>))"

definition log :: "event \<Rightarrow> unit io" where
  "log ev = (\<lambda>s. (Inr (), s\<lparr>trace := trace s @ [ev]\<rparr>))"

definition os_path_exists :: "path \<Rightarrow> bool io" where
  "os_path_exists p = (\<lambda>s. (Inr (p \<in> fs s), s))"

text \<open>
  \<open>os.unlink\<close>: removes an existing path; raises \<open>FileNotFoundError\<close> on a missing
  one. The file system is the set of existing paths: permissions and I/O errors are
  outside the model.
\<close>

definition os_unlink :: "path \<Rightarrow> unit io" where
  "os_unlink p =
     (\<lambda>s. if p \<in> fs s
           then (Inr (), s\<lparr>fs := fs s - {p}, trace := trace s @ [Unlink p]\<rparr>)
           else (Inl (FileNotFoundError p), s\<lparr>trace := trace s @ [Unlink p]\<rparr>))"

text \<open>\<open>open(p, "rb")\<close>, evaluated as an argument of \<open>send_document\<close>.\<close>

definition open_rb :: "path \<Rightarrow> unit io" where
  "open_rb p = (\<lambda>s. if p \<in> fs s then (Inr (), s) else (Inl (FileNotFoundError p), s))"

text \<open>
  \<open>tempfile.NamedTemporaryFile(delete=False, suffix=suffix)\<close> followed by \<open>.name\<close>
  and \<open>.close()\<close>: the library creates, exclusively, the first proposed name that does
  not exist yet, and raises \<open>FileExistsError\<close> when it runs out of proposals. The file
  stays on disk (\<open>delete=False\<close>).
\<close>

definition fresh_name :: "env \<Rightarrow> string \<Rightarrow> world \<Rightarrow> path option" where
  "fresh_name e suffix s =
     List.find (\<lambda>p. p \<notin> fs s) (map (\<lambda>c. c @ suffix) (tmp_candidates e))"

definition named_temporary_file :: "env \<Rightarrow> string \<Rightarrow> path io" where
  "named_temporary_file e suffix =
     (\<lambda>s. case fresh_name e suffix s of
             None \<Rightarrow> (Inl (FileExistsError ''No usable temporary file name found''), s)
           | Some p \<Rightarrow> (Inr p, s\<lparr>fs := insert p (fs s)\<rparr>))"

text \<open>\<open>Path(p).name\<close>: the last component of a path that does not end in a separator.\<close>

definition path_name :: "string \<Rightarrow> string" where
  "path_name p = rev (takeWhile (\<lambda>c. c \<noteq> CHR ''/'') (rev p))"

text \<open>\<open>str.rfind\<close> for one character: the index of its last occurrence.\<close>

definition rfind :: "char \<Rightarrow> string \<Rightarrow> nat option" where
  "rfind c xs =
     (if c \<in> set xs then Some (length xs - 1 - length (takeWhile (\<lambda>x. x \<noteq> c) (rev xs)))
      else None)"

text \<open>
  \<open>Path(p).suffix\<close>: with \<open>i = name.rfind('.')\<close>, the text \<open>name[i:]\<close> when
  \<open>0 < i < len(name) - 1\<close>, the empty string otherwise.
\<close>

definition path_suffix :: "string \<Rightarrow> string" where
  "path_suffix p =
     (let name = path_name p in
      case rfind CHR ''.'' name of
        None \<Rightarrow> ''''
      | Some i \<Rightarrow> if 0 < i \<and> i + 1 < length name then drop i name else '''')"

section \<open>run_ffmpeg (bot.py, lines 27-59)\<close>

text \<open>The argument vector \<open>cmd\<close> of lines 32-50.\<close>

definition ffmpeg_cmd :: "path \<Rightarrow> path \<Rightarrow> string list" where
  "ffmpeg_cmd input_path output_path =
     [''ffmpeg'',
      ''-y'',
      ''-i'',
      input_path,
      ''-vf'',
      ''scale='min(1280,iw)':'min(720,ih)':force_original_aspect_ratio=decrease'',
      ''-c:v'',
      ''libx264'',
      ''-preset'',
      ''veryfast'',
      ''-crf'',
      ''28'',
      ''-c:a'',
      ''aac'',
      ''-b:a'',
      ''128k'',
      output_path]"

text \<open>
  The inner \<open>_run\<close>, which the executor runs to its end before \<open>run_ffmpeg\<close> returns.
  The info line logs the quoted command; the event keeps the argument vector.
  \<open>subprocess.run\<close> itself may raise (the outside decides), otherwise the process has
  run and its exit status is examined.
\<close>

definition run_ffmpeg :: "env \<Rightarrow> path \<Rightarrow> path \<Rightarrow> path io" where
  "run_ffmpeg e input_path output_path =
     (let cmd = ffmpeg_cmd input_path output_path in
      io_then (log (LogInfoRunning cmd))
     (io_then (gateway e (SubprocessRun cmd))
        (if proc_returncode e \<noteq> 0
         then io_then (log (LogError (''ffmpeg failed: '' @ proc_stderr e)))
                      (io_raise (RuntimeError ''ffmpeg failed''))
         else io_return output_path)))"

section \<open>start and help_cmd (bot.py, lines 62-64 and 170-171)\<close>

definition start :: "env \<Rightarrow> unit io" where
  "start e = gateway e (ReplyText MsgStart)"

definition help_cmd :: "env \<Rightarrow> unit io" where
  "help_cmd e = gateway e (ReplyText MsgHelp)"

section \<open>handle_media (bot.py, lines 67-108)\<close>

text \<open>
  An attribute of a bot API object, as \<open>getattr(obj, name, default)\<close> sees it: it may
  be missing (the default is returned), present with the value \<open>None\<close>, or a string.
\<close>

datatype attr = AttrMissing | AttrNone | AttrStr string

fun getattr_default :: "attr \<Rightarrow> string \<Rightarrow> string option" where
  "getattr_default AttrMissing d = Some d"
| "getattr_default AttrNone d = None"
| "getattr_default (AttrStr v) d = Some v"

record tg_file =
  file_id :: string
  file_name :: attr

record message =
  video :: "tg_file option"
  animation :: "tg_file option"

text \<open>
  \<open>Path(filename)\<close> at line 91: \<open>Path(None)\<close> raises \<open>TypeError\<close>; past that
  line \<open>filename\<close> is a string.
\<close>

definition path_of_filename :: "string option \<Rightarrow> string io" where
  "path_of_filename filename =
     (case filename of
        None \<Rightarrow> io_raise (TypeError ''expected str, bytes or os.PathLike object, not NoneType'')
      | Some f \<Rightarrow> io_return f)"

definition download_to_drive :: "env \<Rightarrow> string \<Rightarrow> path \<Rightarrow> unit io" where
  "download_to_drive e fid p =
     io_then (gateway e (DownloadToDrive fid p))
             (\<lambda>s. (Inr (), s\<lparr>fs := insert p (fs s)\<rparr>))"

definition setitem :: "string \<Rightarrow> string \<Rightarrow> unit io" where
  "setitem k v = (\<lambda>s. (Inr (), s\<lparr>user_data := (user_data s)(k \<mapsto> v)\<rparr>))"

text \<open>Lines 88-108, once the file object, its name and its kind are determined.\<close>

definition store_upload :: "env \<Rightarrow> tg_file \<Rightarrow> string option \<Rightarrow> string \<Rightarrow> unit io" where
  "store_upload e file_obj filename mime =
     io_bind (path_of_filename filename) (\<lambda>name.
     io_bind (named_temporary_file e (path_suffix name)) (\<lambda>tmp_in_path.
     io_then (gateway e (GetFile (file_id file_obj)))
    (io_then (download_to_drive e (file_id file_obj) tmp_in_path)
    (io_then (setitem ''last_media_path'' tmp_in_path)
    (io_then (setitem ''last_media_mime'' mime)
    (io_then (setitem ''last_media_filename'' name)
             (gateway e (ReplyKeyboard MsgChoose [''original'', ''compress'']))))))))"

definition handle_media :: "env \<Rightarrow> message \<Rightarrow> unit io" where
  "handle_media e m =
     (case video m of
        Some file_obj \<Rightarrow>
          store_upload e file_obj (getattr_default (file_name file_obj) ''video.mp4'') ''video''
      | None \<Rightarrow>
         (case animation m of
            Some file_obj \<Rightarrow>
              store_upload e file_obj (getattr_default (file_name file_obj) ''animation.gif'')
                ''animation''
          | None \<Rightarrow> gateway e (ReplyText MsgNoMedia)))"

text \<open>An upload that line 76 or line 80 accepts.\<close>

definition supported :: "message \<Rightarrow> bool" where
  "supported m = (video m \<noteq> None \<or> animation m \<noteq> None)"

section \<open>button_cb (bot.py, lines 111-167)\<close>

definition pop_key :: "string \<Rightarrow> unit io" where
  "pop_key k = (\<lambda>s. (Inr (), s\<lparr>user_data := (user_data s)(k := None)\<rparr>))"

text \<open>The \<open>suffix\<close> of line 135.\<close>

definition output_suffix :: "string option \<Rightarrow> string \<Rightarrow> string" where
  "output_suffix mime filename =
     (if mime = Some ''video'' \<or> mime = Some ''animation'' then ''.mp4''
      else path_suffix filename)"

text \<open>
  Lines 141-155: the transcode attempt with its \<open>except\<close> handler, whose \<open>return\<close>
  (line 146) skips the delivery, and the delivery of the output with its cleanup.
\<close>

definition transcode_and_send :: "env \<Rightarrow> path \<Rightarrow> path \<Rightarrow> unit io" where
  "transcode_and_send e media_path tmp_out_path =
     io_bind
       (try_except
          (io_bind (run_ffmpeg e media_path tmp_out_path) (\<lambda>out_path. io_return (Some out_path)))
          (\<lambda>exc. io_then (log (LogException ''Compression failed''))
                 (io_then (gateway e (EditMessageText (MsgCompressFailed (str_exn exc))))
                          (io_return None))))
       (\<lambda>r. case r of
              None \<Rightarrow> io_return ()
            | Some out_path \<Rightarrow>
                io_then (open_rb out_path)
               (io_then (gateway e (SendDocument out_path (path_name out_path)))
               (io_then (gateway e (EditMessageText MsgSentCompressed))
                        (try_pass (os_unlink out_path)))))"

text \<open>The body of the \<open>try\<close> (lines 126-155).\<close>

definition decision_body :: "env \<Rightarrow> string option \<Rightarrow> path \<Rightarrow> string option \<Rightarrow> string \<Rightarrow> unit io" where
  "decision_body e data media_path mime filename =
     (if data = Some ''original'' then
        io_then (gateway e (EditMessageText MsgSendingOriginal))
       (io_then (open_rb media_path)
       (io_then (gateway e (SendDocument media_path filename))
                (gateway e (EditMessageText MsgSentOriginal))))
      else if data = Some ''compress'' then
        io_then (gateway e (EditMessageText MsgCompressing))
       (io_bind (named_temporary_file e (output_suffix mime filename))
                (transcode_and_send e media_path))
      else io_return ())"

text \<open>The \<open>finally\<close> block (lines 158-167).\<close>

definition cleanup :: "path \<Rightarrow> unit io" where
  "cleanup media_path =
     io_then (try_pass (io_bind (os_path_exists media_path) (\<lambda>ex.
                if media_path \<noteq> [] \<and> ex then os_unlink media_path else io_return ())))
    (io_then (pop_key ''last_media_path'')
    (io_then (pop_key ''last_media_mime'')
             (pop_key ''last_media_filename'')))"

text \<open>\<open>user_data.get("last_media_filename", "file")\<close> (line 119).\<close>

definition stored_filename :: "world \<Rightarrow> string" where
  "stored_filename s =
     (case user_data s ''last_media_filename'' of None \<Rightarrow> ''file'' | Some f \<Rightarrow> f)"

definition button_cb :: "env \<Rightarrow> string option \<Rightarrow> unit io" where
  "button_cb e data =
     io_then (gateway e Answer)
       (\<lambda>s. let media_path = user_data s ''last_media_path'';
                mime = user_data s ''last_media_mime'';
                filename = stored_filename s
            in (case media_path of
                  None \<Rightarrow> gateway e (EditMessageText MsgNoFile) s
                | Some p \<Rightarrow>
                    if p = [] \<or> p \<notin> fs s
                    then gateway e (EditMessageText MsgNoFile) s
                    else try_finally (decision_body e data p mime filename) (cleanup p) s))"

section \<open>Reading a state and a trace\<close>

text \<open>
  The pending item as the check of line 121 sees it: the stored path, when it is set,
  not empty and on disk.
\<close>

definition stored_file :: "world \<Rightarrow> path option" where
  "stored_file s =
     (case user_data s ''last_media_path'' of
        None \<Rightarrow> None
      | Some p \<Rightarrow> if p = [] \<or> p \<notin> fs s then None else Some p)"

fun sent_documents :: "event list \<Rightarrow> (path \<times> string) list" where
  "sent_documents [] = []"
| "sent_documents (SendDocument p n # evs) = (p, n) # sent_documents evs"
| "sent_documents (_ # evs) = sent_documents evs"

fun subprocess_calls :: "event list \<Rightarrow> string list list" where
  "subprocess_calls [] = []"
| "subprocess_calls (SubprocessRun cmd # evs) = cmd # subprocess_calls evs"
| "subprocess_calls (_ # evs) = subprocess_calls evs"

fun edits :: "event list \<Rightarrow> msg list" where
  "edits [] = []"
| "edits (EditMessageText m # evs) = m # edits evs"
| "edits (_ # evs) = edits evs"

fun unlinked :: "event list \<Rightarrow> path list" where
  "unlinked [] = []"
| "unlinked (Unlink p # evs) = p # unlinked evs"
| "unlinked (_ # evs) = unlinked evs"



section \<open>Example runs\<close>

definition no_failures :: "event \<Rightarrow> string option" where
  "no_failures = (\<lambda>_. None)"

text \<open>Everything outside works; ffmpeg exits with status 0.\<close>

definition calm_env :: env where
  "calm_env = \<lparr>fails = no_failures, tmp_candidates = [''/tmp/tmpa'', ''/tmp/tmpb''],
                proc_returncode = 0, proc_stderr = []\<rparr>"

text \<open>ffmpeg exits with status 1 and the diagnostic \<open>moov atom not found\<close>.\<close>

definition ffmpeg_fails_env :: env where
  "ffmpeg_fails_env = calm_env\<lparr>proc_returncode := 1, proc_stderr := ''moov atom not found''\<rparr>"

text \<open>Sending a document raises; everything else works.\<close>

definition send_fails :: "event \<Rightarrow> string option" where
  "send_fails ev = (case ev of SendDocument p n \<Rightarrow> Some ''Timed out'' | _ \<Rightarrow> None)"

definition send_fails_env :: env where
  "send_fails_env = calm_env\<lparr>fails := send_fails\<rparr>"

definition empty_world :: world where
  "empty_world = \<lparr>fs = {}, user_data = Map.empty, trace = []\<rparr>"

definition clip_upload :: message where
  "clip_upload =
     \<lparr>video = Some \<lparr>file_id = ''vid-1'', file_name = AttrStr ''clip.mp4''\<rparr>, animation = None\<rparr>"

definition loop_upload :: message where
  "loop_upload =
     \<lparr>video = None, animation = Some \<lparr>file_id = ''gif-1'', file_name = AttrStr ''loop.gif''\<rparr>\<rparr>"

text \<open>
  The state once a video has been uploaded to a fresh bot under a display name
  \<open>name\<close> that ends in \<open>.mp4\<close> and the first proposed temp name was taken (the
  trace starts afresh).
\<close>

definition video_pending :: "string \<Rightarrow> world" where
  "video_pending name =
     \<lparr>fs = {''/tmp/tmpa.mp4''},
      user_data = [''last_media_path'' \<mapsto> ''/tmp/tmpa.mp4'', ''last_media_mime'' \<mapsto> ''video'',
                   ''last_media_filename'' \<mapsto> name],
      trace = []\<rparr>"

text \<open>The two uploads of one user, one after the other, on a fresh bot.\<close>

definition after_first_upload :: world where
  "after_first_upload = snd (handle_media calm_env clip_upload empty_world)"

definition after_second_upload :: world where
  "after_second_upload = snd (handle_media calm_env loop_upload after_first_upload)"

section \<open>Rules for outcomes\<close>
















section \<open>The body of the try leaves the input file alone\<close>




lemma fresh_name_fresh: "fresh_name e suffix s = Some q \<Longrightarrow> q \<notin> fs s"
  by (auto simp: fresh_name_def find_Some_iff)








section \<open>The finally block and the two ways through button_cb\<close>

lemmas io_defs = io_return_def io_raise_def io_bind_def io_then_def try_except_def try_pass_def
  try_finally_def gateway_def log_def os_path_exists_def os_unlink_def open_rb_def
  named_temporary_file_def fresh_name_def run_ffmpeg_def pop_key_def setitem_def
  stored_filename_def

lemmas example_defs = calm_env_def ffmpeg_fails_env_def send_fails_env_def send_fails_def
  no_failures_def empty_world_def clip_upload_def loop_upload_def video_pending_def

lemma sent_documents_append [simp]:
  "sent_documents (xs @ ys) = sent_documents xs @ sent_documents ys"
  by (induction xs rule: sent_documents.induct) simp_all

lemma subprocess_calls_append [simp]:
  "subprocess_calls (xs @ ys) = subprocess_calls xs @ subprocess_calls ys"
  by (induction xs rule: subprocess_calls.induct) simp_all

lemma edits_append [simp]: "edits (xs @ ys) = edits xs @ edits ys"
  by (induction xs rule: edits.induct) simp_all

lemma unlinked_append [simp]: "unlinked (xs @ ys) = unlinked xs @ unlinked ys"
  by (induction xs rule: unlinked.induct) simp_all

lemma cleanup_eq:
  "cleanup p s =
     (Inr (), (if p \<noteq> [] \<and> p \<in> fs s
               then s\<lparr>fs := fs s - {p}, trace := trace s @ [Unlink p]\<rparr> else s)
              \<lparr>user_data := (user_data s)(''last_media_path'' := None, ''last_media_mime'' := None,
                                          ''last_media_filename'' := None)\<rparr>)"
  by (simp add: cleanup_def io_then_def io_bind_def try_pass_def try_except_def os_path_exists_def
      os_unlink_def io_return_def pop_key_def)

lemma try_finally_cleanup:
  "try_finally m (cleanup p) s = (fst (m s), snd (cleanup p (snd (m s))))"
  by (cases "m s") (simp add: try_finally_def cleanup_eq)

lemma stored_fileD:
  "stored_file s = Some p \<Longrightarrow> p \<noteq> [] \<and> p \<in> fs s \<and> user_data s ''last_media_path'' = Some p"
  by (auto simp: stored_file_def split: option.splits if_splits)

lemma stored_file_None_iff:
  "stored_file s = None \<longleftrightarrow>
     user_data s ''last_media_path'' = None \<or> user_data s ''last_media_path'' = Some []
     \<or> (\<exists>p. user_data s ''last_media_path'' = Some p \<and> p \<notin> fs s)"
  by (auto simp: stored_file_def split: option.splits if_splits)

lemma button_cb_stored:
  assumes "fails e Answer = None" and "stored_file s = Some p"
  shows "button_cb e data s =
     try_finally
       (decision_body e data p (user_data s ''last_media_mime'') (stored_filename s))
       (cleanup p) (s\<lparr>trace := trace s @ [Answer]\<rparr>)"
  using assms
  by (auto simp: button_cb_def stored_file_def stored_filename_def io_then_def io_bind_def
      gateway_def Let_def split: option.splits if_splits)

lemma button_cb_no_file:
  assumes "fails e Answer = None" and "stored_file s = None"
  shows "button_cb e data s =
     (case fails e (EditMessageText MsgNoFile) of
        None \<Rightarrow> Inr () | Some m \<Rightarrow> Inl (ExternalError m),
      s\<lparr>trace := trace s @ [Answer, EditMessageText MsgNoFile]\<rparr>)"
  using assms
  by (auto simp: button_cb_def stored_file_def stored_filename_def io_then_def io_bind_def
      gateway_def Let_def split: option.splits if_splits)


section \<open>Claims about the decision handler\<close>





text \<open>
  C8. A decision event that finds no stored item (the path is unset, or empty, or
  not on disk any more) and has been acknowledged attempts the no-file reply and
  returns (or passes on what that reply raised). It sends no document, starts no
  process and unlinks nothing: disk and dictionary are as before.
\<close>

theorem no_stored_file_only_replies:
  assumes "fails e Answer = None" and "stored_file s = None"
  shows "button_cb e data s =
           (case fails e (EditMessageText MsgNoFile) of
              None \<Rightarrow> Inr () | Some m \<Rightarrow> Inl (ExternalError m),
            s\<lparr>trace := trace s @ [Answer, EditMessageText MsgNoFile]\<rparr>)
       \<and> sent_documents (trace (snd (button_cb e data s))) = sent_documents (trace s)
       \<and> subprocess_calls (trace (snd (button_cb e data s))) = subprocess_calls (trace s)
       \<and> unlinked (trace (snd (button_cb e data s))) = unlinked (trace s)
       \<and> fs (snd (button_cb e data s)) = fs s"
  by (simp add: button_cb_no_file[OF assms])

theorem no_stored_file_only_replies_witness:
  "fails calm_env Answer = None
   \<and> stored_file ((video_pending ''clip.mp4'')\<lparr>fs := {}\<rparr>) = None
   \<and> button_cb calm_env (Some ''original'') ((video_pending ''clip.mp4'')\<lparr>fs := {}\<rparr>) =
       (Inr (), (video_pending ''clip.mp4'')\<lparr>fs := {}, trace := [Answer, EditMessageText MsgNoFile]\<rparr>)"
proof -
  have h1: "fails calm_env Answer = None"
    by (simp add: example_defs)
  have h2: "stored_file ((video_pending ''clip.mp4'')\<lparr>fs := {}\<rparr>) = None"
    by (simp add: stored_file_def video_pending_def)
  from no_stored_file_only_replies[OF h1 h2, of "Some ''original''"] show ?thesis
    using h1 h2 by (simp add: example_defs)
qed





section \<open>The transcode and the compress branch, step by step\<close>

lemma run_ffmpeg_trace:
  "trace (snd (run_ffmpeg e i out s)) =
     trace s @ [LogInfoRunning (ffmpeg_cmd i out), SubprocessRun (ffmpeg_cmd i out)]
       @ (if fails e (SubprocessRun (ffmpeg_cmd i out)) = None \<and> proc_returncode e \<noteq> 0
          then [LogError (''ffmpeg failed: '' @ proc_stderr e)] else [])"
  by (simp add: run_ffmpeg_def Let_def io_then_def io_bind_def log_def gateway_def io_raise_def
      io_return_def split: option.splits)

lemma run_ffmpeg_failure:
  assumes "proc_returncode e \<noteq> 0" and "fails e (SubprocessRun (ffmpeg_cmd i out)) = None"
  shows "run_ffmpeg e i out s =
     (Inl (RuntimeError ''ffmpeg failed''),
      s\<lparr>trace := trace s @ [LogInfoRunning (ffmpeg_cmd i out), SubprocessRun (ffmpeg_cmd i out),
                            LogError (''ffmpeg failed: '' @ proc_stderr e)]\<rparr>)"
  using assms
  by (simp add: run_ffmpeg_def Let_def io_then_def io_bind_def log_def gateway_def io_raise_def)

lemma run_ffmpeg_success:
  assumes "proc_returncode e = 0" and "fails e (SubprocessRun (ffmpeg_cmd i out)) = None"
  shows "run_ffmpeg e i out s =
     (Inr out,
      s\<lparr>trace := trace s @ [LogInfoRunning (ffmpeg_cmd i out), SubprocessRun (ffmpeg_cmd i out)]\<rparr>)"
  using assms
  by (simp add: run_ffmpeg_def Let_def io_then_def io_bind_def log_def gateway_def io_return_def)

lemma fresh_name_trace [simp]: "fresh_name e suffix (s\<lparr>trace := t\<rparr>) = fresh_name e suffix s"
  by (simp add: fresh_name_def)

lemma fresh_name_candidate:
  "fresh_name e suffix s = Some q \<Longrightarrow> q \<in> set (map (\<lambda>c. c @ suffix) (tmp_candidates e))"
  by (auto simp: fresh_name_def find_Some_iff)

lemma compress_failure:
  assumes "fails e Answer = None" and "stored_file s = Some p"
    and "fails e (EditMessageText MsgCompressing) = None"
    and "fresh_name e (output_suffix (user_data s ''last_media_mime'') (stored_filename s)) s
           = Some out"
    and "fails e (SubprocessRun (ffmpeg_cmd p out)) = None"
    and "proc_returncode e \<noteq> 0"
  shows "button_cb e (Some ''compress'') s =
     (case fails e (EditMessageText (MsgCompressFailed ''ffmpeg failed'')) of
        None \<Rightarrow> Inr () | Some m \<Rightarrow> Inl (ExternalError m),
      s\<lparr>fs := insert out (fs s) - {p},
        user_data := (user_data s)(''last_media_path'' := None, ''last_media_mime'' := None,
                                   ''last_media_filename'' := None),
        trace := trace s @ [Answer, EditMessageText MsgCompressing,
                            LogInfoRunning (ffmpeg_cmd p out), SubprocessRun (ffmpeg_cmd p out),
                            LogError (''ffmpeg failed: '' @ proc_stderr e),
                            LogException ''Compression failed'',
                            EditMessageText (MsgCompressFailed ''ffmpeg failed''),
                            Unlink p]\<rparr>)"
  using assms(3,4) stored_fileD[OF assms(2)]
  by (simp add: button_cb_stored[OF assms(1,2)] try_finally_cleanup cleanup_eq decision_body_def
      transcode_and_send_def run_ffmpeg_failure[OF assms(6,5)]
      io_then_def io_bind_def try_except_def gateway_def log_def io_return_def
      named_temporary_file_def split: option.splits)

lemma compress_sent:
  assumes "fails e Answer = None" and "stored_file s = Some p"
    and "fails e (EditMessageText MsgCompressing) = None"
    and "fresh_name e (output_suffix (user_data s ''last_media_mime'') (stored_filename s)) s
           = Some out"
    and "fails e (SubprocessRun (ffmpeg_cmd p out)) = None"
    and "proc_returncode e = 0"
  shows "sent_documents (trace (snd (button_cb e (Some ''compress'') s)))
           = sent_documents (trace s) @ [(out, path_name out)]"
  using assms(3,4) stored_fileD[OF assms(2)]
  by (simp add: button_cb_stored[OF assms(1,2)] try_finally_cleanup cleanup_eq decision_body_def
      transcode_and_send_def run_ffmpeg_success[OF assms(6,5)]
      io_then_def io_bind_def try_except_def try_pass_def gateway_def log_def io_return_def
      named_temporary_file_def open_rb_def os_unlink_def split: option.splits)

lemmas button_cb_defs = button_cb_def decision_body_def transcode_and_send_def cleanup_def
  output_suffix_def ffmpeg_cmd_def path_name_def

section \<open>Claims about the transcode\<close>

text \<open>
  C6. Every call of \<open>run_ffmpeg\<close> starts exactly one process, and its argument vector
  is the fixed profile around the two paths: overwrite flag, input, the scale filter
  that fits the picture into 1280 by 720 (no wider than the input, no higher than the
  input, aspect ratio kept by decreasing), video codec libx264 with preset veryfast
  and CRF 28, audio codec aac at 128k, and the output path last.
\<close>

theorem run_ffmpeg_argument_profile:
  "subprocess_calls (trace (snd (run_ffmpeg e input_path output_path s))) =
     subprocess_calls (trace s) @
       [[''ffmpeg'', ''-y'', ''-i'', input_path,
         ''-vf'', ''scale='min(1280,iw)':'min(720,ih)':force_original_aspect_ratio=decrease'',
         ''-c:v'', ''libx264'', ''-preset'', ''veryfast'', ''-crf'', ''28'',
         ''-c:a'', ''aac'', ''-b:a'', ''128k'', output_path]]"
  by (simp add: run_ffmpeg_trace) (simp add: ffmpeg_cmd_def)

theorem run_ffmpeg_argument_profile_witness:
  "subprocess_calls (trace (snd (run_ffmpeg ffmpeg_fails_env ''/tmp/tmpa.mp4'' ''/tmp/tmpb.mp4''
                                   empty_world))) =
       [[''ffmpeg'', ''-y'', ''-i'', ''/tmp/tmpa.mp4'',
         ''-vf'', ''scale='min(1280,iw)':'min(720,ih)':force_original_aspect_ratio=decrease'',
         ''-c:v'', ''libx264'', ''-preset'', ''veryfast'', ''-crf'', ''28'',
         ''-c:a'', ''aac'', ''-b:a'', ''128k'', ''/tmp/tmpb.mp4'']]"
  using run_ffmpeg_argument_profile[of ffmpeg_fails_env "''/tmp/tmpa.mp4''" "''/tmp/tmpb.mp4''"
      empty_world]
  by (simp add: empty_world_def)

text \<open>
  C4, as the code has it. When the ffmpeg process exits with a status other than 0,
  its error stream goes to the error log and nowhere else: \<open>run_ffmpeg\<close> raises
  \<open>RuntimeError("ffmpeg failed")\<close>, whatever the stream held, and the text the user
  gets is the failure message filled with that fixed string.
\<close>

theorem transcode_failure_reports_fixed_text:
  assumes "fails e Answer = None" and "stored_file s = Some p"
    and "fails e (EditMessageText MsgCompressing) = None"
    and "fresh_name e (output_suffix (user_data s ''last_media_mime'') (stored_filename s)) s
           = Some out"
    and "fails e (SubprocessRun (ffmpeg_cmd p out)) = None"
    and "proc_returncode e \<noteq> 0"
  shows "run_ffmpeg e p out s0 =
           (Inl (RuntimeError ''ffmpeg failed''),
            s0\<lparr>trace := trace s0 @ [LogInfoRunning (ffmpeg_cmd p out),
                                    SubprocessRun (ffmpeg_cmd p out),
                                    LogError (''ffmpeg failed: '' @ proc_stderr e)]\<rparr>)
       \<and> edits (trace (snd (button_cb e (Some ''compress'') s))) =
           edits (trace s) @ [MsgCompressing, MsgCompressFailed ''ffmpeg failed'']"
  by (simp add: run_ffmpeg_failure[OF assms(6,5)] compress_failure[OF assms])

theorem transcode_failure_reports_fixed_text_witness:
  "fails ffmpeg_fails_env Answer = None
   \<and> stored_file (video_pending ''clip.mp4'') = Some ''/tmp/tmpa.mp4''
   \<and> fresh_name ffmpeg_fails_env ''.mp4'' (video_pending ''clip.mp4'') = Some ''/tmp/tmpb.mp4''
   \<and> proc_returncode ffmpeg_fails_env = 1
   \<and> fst (run_ffmpeg ffmpeg_fails_env ''/tmp/tmpa.mp4'' ''/tmp/tmpb.mp4'' empty_world)
       = Inl (RuntimeError ''ffmpeg failed'')
   \<and> edits (trace (snd (button_cb ffmpeg_fails_env (Some ''compress'')
                           (video_pending ''clip.mp4''))))
       = [MsgCompressing, MsgCompressFailed ''ffmpeg failed'']"
proof -
  have h1: "fails ffmpeg_fails_env Answer = None"
    and h3: "fails ffmpeg_fails_env (EditMessageText MsgCompressing) = None"
    and h5: "fails ffmpeg_fails_env
               (SubprocessRun (ffmpeg_cmd ''/tmp/tmpa.mp4'' ''/tmp/tmpb.mp4'')) = None"
    and h6: "proc_returncode ffmpeg_fails_env \<noteq> 0"
    and h6': "proc_returncode ffmpeg_fails_env = 1"
    by (simp_all add: example_defs)
  have h2: "stored_file (video_pending ''clip.mp4'') = Some ''/tmp/tmpa.mp4''"
    by (simp add: stored_file_def video_pending_def)
  have f: "fresh_name ffmpeg_fails_env ''.mp4'' (video_pending ''clip.mp4'') = Some ''/tmp/tmpb.mp4''"
    by (simp add: fresh_name_def example_defs)
  then have h4: "fresh_name ffmpeg_fails_env
       (output_suffix (user_data (video_pending ''clip.mp4'') ''last_media_mime'')
          (stored_filename (video_pending ''clip.mp4''))) (video_pending ''clip.mp4'')
       = Some ''/tmp/tmpb.mp4''"
    by (simp add: output_suffix_def video_pending_def)
  from transcode_failure_reports_fixed_text[OF h1 h2 h3 h4 h5 h6, of empty_world]
  show ?thesis using h1 h2 f h6' by (simp add: video_pending_def)
qed

text \<open>
  C4, as the claim has it, fails: ffmpeg exits with status 1 and the diagnostic
  \<open>moov atom not found\<close>; the exception raised holds \<open>ffmpeg failed\<close> and the user is
  told \<open>ffmpeg failed\<close>, while the diagnostic is found in the error log only.
\<close>

theorem transcode_diagnostic_not_reported:
  "proc_returncode ffmpeg_fails_env = 1
   \<and> proc_stderr ffmpeg_fails_env = ''moov atom not found''
   \<and> fst (run_ffmpeg ffmpeg_fails_env ''/tmp/tmpa.mp4'' ''/tmp/tmpb.mp4''
            (video_pending ''clip.mp4'')) = Inl (RuntimeError ''ffmpeg failed'')
   \<and> str_exn (RuntimeError ''ffmpeg failed'') \<noteq> ''moov atom not found''
   \<and> edits (trace (snd (button_cb ffmpeg_fails_env (Some ''compress'')
                           (video_pending ''clip.mp4''))))
       = [MsgCompressing, MsgCompressFailed ''ffmpeg failed'']
   \<and> LogError ''ffmpeg failed: moov atom not found''
       \<in> set (trace (snd (button_cb ffmpeg_fails_env (Some ''compress'')
                              (video_pending ''clip.mp4''))))"
  by (simp add: button_cb_defs io_defs example_defs stored_file_def Let_def)

text \<open>
  C3: the code leaves the output file behind. A compress decision on a stored file,
  acknowledged and announced, with a temp output path \<open>out\<close> created and an ffmpeg
  process that exits with a status other than 0: when the handler is left, \<open>out\<close> is
  still on disk, and the only path the handler unlinked is the input path. The
  \<open>except\<close> branch returns at line 146, before the output cleanup of lines 151-155.
\<close>

theorem failed_transcode_keeps_output_file:
  assumes "fails e Answer = None" and "stored_file s = Some p"
    and "fails e (EditMessageText MsgCompressing) = None"
    and "fresh_name e (output_suffix (user_data s ''last_media_mime'') (stored_filename s)) s
           = Some out"
    and "fails e (SubprocessRun (ffmpeg_cmd p out)) = None"
    and "proc_returncode e \<noteq> 0"
  shows "out \<in> fs (snd (button_cb e (Some ''compress'') s))
       \<and> out \<notin> fs s
       \<and> unlinked (trace (snd (button_cb e (Some ''compress'') s))) = unlinked (trace s) @ [p]"
  using fresh_name_fresh[OF assms(4)] stored_fileD[OF assms(2)]
  by (auto simp: compress_failure[OF assms])

theorem failed_transcode_keeps_output_file_witness:
  "fails ffmpeg_fails_env Answer = None
   \<and> stored_file (video_pending ''clip.mp4'') = Some ''/tmp/tmpa.mp4''
   \<and> fresh_name ffmpeg_fails_env ''.mp4'' (video_pending ''clip.mp4'') = Some ''/tmp/tmpb.mp4''
   \<and> proc_returncode ffmpeg_fails_env = 1
   \<and> fs (snd (button_cb ffmpeg_fails_env (Some ''compress'') (video_pending ''clip.mp4'')))
       = {''/tmp/tmpb.mp4''}
   \<and> unlinked (trace (snd (button_cb ffmpeg_fails_env (Some ''compress'')
                              (video_pending ''clip.mp4'')))) = [''/tmp/tmpa.mp4'']"
proof -
  have h1: "fails ffmpeg_fails_env Answer = None"
    and h3: "fails ffmpeg_fails_env (EditMessageText MsgCompressing) = None"
    and h5: "fails ffmpeg_fails_env
               (SubprocessRun (ffmpeg_cmd ''/tmp/tmpa.mp4'' ''/tmp/tmpb.mp4'')) = None"
    and h6: "proc_returncode ffmpeg_fails_env \<noteq> 0"
    and h6': "proc_returncode ffmpeg_fails_env = 1"
    by (simp_all add: example_defs)
  have h2: "stored_file (video_pending ''clip.mp4'') = Some ''/tmp/tmpa.mp4''"
    by (simp add: stored_file_def video_pending_def)
  have f: "fresh_name ffmpeg_fails_env ''.mp4'' (video_pending ''clip.mp4'') = Some ''/tmp/tmpb.mp4''"
    by (simp add: fresh_name_def example_defs)
  then have h4: "fresh_name ffmpeg_fails_env
       (output_suffix (user_data (video_pending ''clip.mp4'') ''last_media_mime'')
          (stored_filename (video_pending ''clip.mp4''))) (video_pending ''clip.mp4'')
       = Some ''/tmp/tmpb.mp4''"
    by (simp add: output_suffix_def video_pending_def)
  have fs: "fs (snd (button_cb ffmpeg_fails_env (Some ''compress'') (video_pending ''clip.mp4'')))
       = {''/tmp/tmpb.mp4''}"
    by (simp add: compress_failure[OF h1 h2 h3 h4 h5 h6]) (auto simp: video_pending_def)
  from failed_transcode_keeps_output_file[OF h1 h2 h3 h4 h5 h6]
  show ?thesis using h1 h2 f h6' fs by (simp add: video_pending_def)
qed

text \<open>
  C5, as the code has it. A compress decision on an uploaded video whose transcode
  succeeds: the one document the handler sends is the temp output file, under that
  file's own name, which is a name proposed by the temp-file generator followed by
  \<open>.mp4\<close>. The display name of the upload plays no part.
\<close>

theorem compressed_document_named_after_temp_file:
  assumes "fails e Answer = None" and "stored_file s = Some p"
    and "user_data s ''last_media_mime'' = Some ''video''"
    and "fails e (EditMessageText MsgCompressing) = None"
    and "fresh_name e ''.mp4'' s = Some out"
    and "fails e (SubprocessRun (ffmpeg_cmd p out)) = None"
    and "proc_returncode e = 0"
  shows "sent_documents (trace (snd (button_cb e (Some ''compress'') s)))
           = sent_documents (trace s) @ [(out, path_name out)]
       \<and> out \<in> set (map (\<lambda>c. c @ ''.mp4'') (tmp_candidates e))"
proof -
  have "fresh_name e (output_suffix (user_data s ''last_media_mime'') (stored_filename s)) s
          = Some out"
    using assms(3,5) by (simp add: output_suffix_def)
  from compress_sent[OF assms(1,2,4) this assms(6,7)] fresh_name_candidate[OF assms(5)]
  show ?thesis by simp
qed

theorem compressed_document_named_after_temp_file_witness:
  "fails calm_env Answer = None
   \<and> stored_file (video_pending ''clip.mp4'') = Some ''/tmp/tmpa.mp4''
   \<and> user_data (video_pending ''clip.mp4'') ''last_media_mime'' = Some ''video''
   \<and> fresh_name calm_env ''.mp4'' (video_pending ''clip.mp4'') = Some ''/tmp/tmpb.mp4''
   \<and> proc_returncode calm_env = 0
   \<and> sent_documents (trace (snd (button_cb calm_env (Some ''compress'')
                                    (video_pending ''clip.mp4''))))
       = [(''/tmp/tmpb.mp4'', ''tmpb.mp4'')]"
proof -
  have h1: "fails calm_env Answer = None"
    and h4: "fails calm_env (EditMessageText MsgCompressing) = None"
    and h6: "fails calm_env (SubprocessRun (ffmpeg_cmd ''/tmp/tmpa.mp4'' ''/tmp/tmpb.mp4'')) = None"
    and h7: "proc_returncode calm_env = 0"
    by (simp_all add: example_defs)
  have h2: "stored_file (video_pending ''clip.mp4'') = Some ''/tmp/tmpa.mp4''"
    and h3: "user_data (video_pending ''clip.mp4'') ''last_media_mime'' = Some ''video''"
    by (simp_all add: stored_file_def video_pending_def)
  have h5: "fresh_name calm_env ''.mp4'' (video_pending ''clip.mp4'') = Some ''/tmp/tmpb.mp4''"
    by (simp add: fresh_name_def example_defs)
  from compressed_document_named_after_temp_file[OF h1 h2 h3 h4 h5 h6 h7]
  show ?thesis using h1 h2 h3 h5 h7 by (simp add: video_pending_def path_name_def)
qed

text \<open>
  C5, as the claim has it, fails: the video uploaded as \<open>clip.mp4\<close> and the video
  uploaded as \<open>holiday.mp4\<close> both come back compressed under the name \<open>tmpb.mp4\<close>.
\<close>

theorem compressed_document_ignores_display_name:
  "stored_filename (video_pending ''clip.mp4'') = ''clip.mp4''
   \<and> fst (button_cb calm_env (Some ''compress'') (video_pending ''clip.mp4'')) = Inr ()
   \<and> sent_documents (trace (snd (button_cb calm_env (Some ''compress'')
                                    (video_pending ''clip.mp4''))))
       = [(''/tmp/tmpb.mp4'', ''tmpb.mp4'')]
   \<and> stored_filename (video_pending ''holiday.mp4'') = ''holiday.mp4''
   \<and> fst (button_cb calm_env (Some ''compress'') (video_pending ''holiday.mp4'')) = Inr ()
   \<and> sent_documents (trace (snd (button_cb calm_env (Some ''compress'')
                                    (video_pending ''holiday.mp4''))))
       = [(''/tmp/tmpb.mp4'', ''tmpb.mp4'')]"
  by (simp add: button_cb_defs io_defs example_defs stored_file_def Let_def)

section \<open>Claims about uploads\<close>

lemma store_upload_ok:
  assumes "store_upload e f (Some name) mime s = (Inr (), s')"
  shows "\<exists>p. fresh_name e (path_suffix name) s = Some p \<and>
     s' = s\<lparr>fs := insert p (fs s),
            user_data := (user_data s)(''last_media_path'' \<mapsto> p, ''last_media_mime'' \<mapsto> mime,
                                       ''last_media_filename'' \<mapsto> name),
            trace := trace s @ [GetFile (file_id f), DownloadToDrive (file_id f) p,
                                ReplyKeyboard MsgChoose [''original'', ''compress'']]\<rparr>"
  using assms
  by (auto simp: store_upload_def path_of_filename_def download_to_drive_def io_return_def
      io_raise_def io_bind_def io_then_def gateway_def named_temporary_file_def setitem_def
      split: option.splits sum.splits prod.splits if_splits)

lemma store_upload_None: "fst (store_upload e f None mime s) \<noteq> Inr ()"
  by (simp add: store_upload_def path_of_filename_def io_bind_def io_raise_def)

lemma handle_media_ok:
  assumes "handle_media e m s = (Inr (), s')" and "supported m"
  shows "\<exists>p. p \<notin> fs s \<and> fs s' = insert p (fs s) \<and> user_data s' ''last_media_path'' = Some p
           \<and> unlinked (trace s') = unlinked (trace s)"
proof -
  obtain f name mime where "store_upload e f name mime s = (Inr (), s')"
    using assms by (auto simp: handle_media_def supported_def split: option.splits)
  moreover from this obtain n where "name = Some n"
    using store_upload_None[of e f mime s] by (cases name) auto
  ultimately obtain p where "fresh_name e (path_suffix n) s = Some p"
    and "s' = s\<lparr>fs := insert p (fs s),
            user_data := (user_data s)(''last_media_path'' \<mapsto> p, ''last_media_mime'' \<mapsto> mime,
                                       ''last_media_filename'' \<mapsto> n),
            trace := trace s @ [GetFile (file_id f), DownloadToDrive (file_id f) p,
                                ReplyKeyboard MsgChoose [''original'', ''compress'']]\<rparr>"
    using store_upload_ok by blast
  then show ?thesis
    by (auto dest: fresh_name_fresh)
qed

lemmas handle_media_defs = handle_media_def store_upload_def path_of_filename_def
  download_to_drive_def path_suffix_def path_name_def rfind_def after_first_upload_def
  after_second_upload_def

text \<open>
  The written-out example state is what the upload handler builds from \<open>clip.mp4\<close>.
\<close>

lemma after_first_upload_eq:
  "after_first_upload =
     (video_pending ''clip.mp4'')
       \<lparr>trace := [GetFile ''vid-1'', DownloadToDrive ''vid-1'' ''/tmp/tmpa.mp4'',
                  ReplyKeyboard MsgChoose [''original'', ''compress'']]\<rparr>"
  by (simp add: handle_media_defs io_defs example_defs)

text \<open>
  C1, as the code has it. Two uploads of one user, both accepted and handled to the
  end, no decision in between: the second upload is stored under a path of its own and
  the session now names that path, but nothing is unlinked; the file of the first
  upload is still on disk next to the file of the second.
\<close>

theorem second_upload_keeps_first_file:
  assumes "handle_media e1 m1 s0 = (Inr (), s1)" and "supported m1"
    and "handle_media e2 m2 s1 = (Inr (), s2)" and "supported m2"
  shows "\<exists>p1 p2. user_data s1 ''last_media_path'' = Some p1
            \<and> user_data s2 ''last_media_path'' = Some p2
            \<and> p1 \<noteq> p2 \<and> p1 \<in> fs s2 \<and> p2 \<in> fs s2
            \<and> unlinked (trace s2) = unlinked (trace s0)"
proof -
  from handle_media_ok[OF assms(1,2)] obtain p1 where
    1: "fs s1 = insert p1 (fs s0)" "user_data s1 ''last_media_path'' = Some p1"
       "unlinked (trace s1) = unlinked (trace s0)" by blast
  from handle_media_ok[OF assms(3,4)] obtain p2 where
    2: "p2 \<notin> fs s1" "fs s2 = insert p2 (fs s1)" "user_data s2 ''last_media_path'' = Some p2"
       "unlinked (trace s2) = unlinked (trace s1)" by blast
  from 1 2 show ?thesis by auto
qed

theorem second_upload_keeps_first_file_witness:
  "supported clip_upload \<and> supported loop_upload
   \<and> fst (handle_media calm_env clip_upload empty_world) = Inr ()
   \<and> fst (handle_media calm_env loop_upload after_first_upload) = Inr ()
   \<and> (\<exists>p1 p2. user_data after_first_upload ''last_media_path'' = Some p1
            \<and> user_data after_second_upload ''last_media_path'' = Some p2
            \<and> p1 \<noteq> p2 \<and> p1 \<in> fs after_second_upload \<and> p2 \<in> fs after_second_upload
            \<and> unlinked (trace after_second_upload) = unlinked (trace empty_world))"
proof -
  have h2: "supported clip_upload" and h4: "supported loop_upload"
    by (simp_all add: supported_def example_defs)
  have r1: "fst (handle_media calm_env clip_upload empty_world) = Inr ()"
    by (simp add: handle_media_defs io_defs example_defs)
  have r3: "fst (handle_media calm_env loop_upload after_first_upload) = Inr ()"
    by (simp add: handle_media_defs io_defs example_defs)
  from r1 have h1: "handle_media calm_env clip_upload empty_world = (Inr (), after_first_upload)"
    unfolding after_first_upload_def by (metis prod.collapse)
  from r3 have h3: "handle_media calm_env loop_upload after_first_upload
                      = (Inr (), after_second_upload)"
    unfolding after_second_upload_def by (metis prod.collapse)
  from second_upload_keeps_first_file[OF h1 h2 h3 h4] show ?thesis
    using h2 h4 r1 r3 by simp
qed

text \<open>
  C1, as the claim has it, fails: \<open>clip.mp4\<close> is uploaded and stored as
  \<open>/tmp/tmpa.mp4\<close>, then \<open>loop.gif\<close> is uploaded and recorded as \<open>/tmp/tmpa.gif\<close>;
  the file of the first upload is still on disk and nothing was unlinked.
\<close>

theorem first_file_survives_second_upload:
  "user_data after_first_upload ''last_media_path'' = Some ''/tmp/tmpa.mp4''
   \<and> fst (handle_media calm_env loop_upload after_first_upload) = Inr ()
   \<and> user_data after_second_upload ''last_media_path'' = Some ''/tmp/tmpa.gif''
   \<and> fs after_second_upload = {''/tmp/tmpa.gif'', ''/tmp/tmpa.mp4''}
   \<and> unlinked (trace after_second_upload) = []"
  by (simp add: handle_media_defs io_defs example_defs)

end
